theory Spec2Isabelle
  imports Main "HOL-Library.Sublist" "HOL-Library.Product_Lexorder" "HOL-Library.Multiset"
begin

section \<open>The data the script works on\<close>

text \<open>
  BLS_Slide_Creator.py reads the JSON answer of the BLS time-series API. A series is a
  dict with the keys \<^verbatim>\<open>seriesID\<close> and \<^verbatim>\<open>data\<close>; an observation is a dict with
  the keys \<^verbatim>\<open>year\<close>, \<^verbatim>\<open>period\<close>, \<^verbatim>\<open>periodName\<close>, \<^verbatim>\<open>value\<close> and
  \<^verbatim>\<open>footnotes\<close>, all read with \<^verbatim>\<open>item[...]\<close>, and the key \<^verbatim>\<open>latest\<close>, the only
  one the script reads with \<^verbatim>\<open>item.get(...)\<close>: it is the optional one, so its field is
  an option (\<open>None\<close>: the key is absent). All values are strings, as the API sends them.
  The field of the key \<^verbatim>\<open>value\<close> is written \<open>value'\<close>.

  The three key columns come first, so that the rows of every table below (which all
  keep them) extend the same record.
\<close>

type_synonym footnote = "(string \<times> string) list"

record period_key =
  year :: string
  period :: string
  periodName :: string

record obs_row = period_key +
  value' :: string

record observation = obs_row +
  latest :: "string option"
  footnotes :: "footnote list"

record series =
  seriesID :: string
  data :: "observation list"

text \<open>
  The exceptions of a run. \<open>TypeError\<close>, \<open>KeyError\<close> and \<open>ValueError\<close> are the Python
  exceptions the statements of the script can raise. \<open>DataShapeError\<close> is the named error
  of the specification's error taxonomy; no statement of the script raises it, and it is
  here only so that this can be said.
\<close>

datatype error = TypeError | KeyError | ValueError | DataShapeError

section \<open>Extractor\<close>

subsection \<open>find_latest_value\<close>

text \<open>
  \<^verbatim>\<open>
  def find_latest_value(jsoninput):
      latest_data = None
      for item in jsoninput['data']:
          if item.get('latest') == 'true':
              latest_data = item
              break
      return (jsoninput['seriesID'], latest_data['value'],
              latest_data['periodName'] + "-" + latest_data['year'])
  \<close>
  \<open>latest_loop\<close> is the for loop with its break: the value of \<^verbatim>\<open>latest_data\<close> when
  the loop is left. Subscripting \<^verbatim>\<open>None\<close> in the return statement raises TypeError.
\<close>

fun latest_loop :: "observation list \<Rightarrow> observation option" where
  "latest_loop [] = None"
| "latest_loop (item # rest) =
     (if latest item = Some ''true'' then Some item else latest_loop rest)"

definition find_latest_value :: "series \<Rightarrow> error + string \<times> string \<times> string" where
  "find_latest_value jsoninput =
     (case latest_loop (data jsoninput) of
        None \<Rightarrow> Inl TypeError
      | Some latest_data \<Rightarrow>
          Inr (seriesID jsoninput,
               value' latest_data,
               periodName latest_data @ ''-'' @ year latest_data))"

subsection \<open>find_trended_data\<close>

text \<open>
  \<^verbatim>\<open>
  def find_trended_data(jsoninput, data_dict_key, key):
      for item in jsoninput:
          if data_dict_key[item['seriesID']] == key:
              return item['data']
  \<close>
  \<^verbatim>\<open>data_dict_key[...]\<close> raises KeyError for an identifier that is not a key of the
  dict. A loop that ends without a match falls off the end of the function, which
  returns \<^verbatim>\<open>None\<close>: the result \<open>Inr None\<close>.
\<close>

fun find_trended_data ::
  "series list \<Rightarrow> (string \<rightharpoonup> string) \<Rightarrow> string \<Rightarrow> error + observation list option" where
  "find_trended_data [] data_dict_key k = Inr None"
| "find_trended_data (item # rest) data_dict_key k =
     (case data_dict_key (seriesID item) of
        None \<Rightarrow> Inl KeyError
      | Some label \<Rightarrow>
          if label = k then Inr (Some (data item))
          else find_trended_data rest data_dict_key k)"

definition data_dict_key :: "string \<rightharpoonup> string" where
  "data_dict_key =
     map_of [(''LNS13000000'', ''Unemployment Level''),
             (''JTS000000000000000JOL'', ''Labor Force''),
             (''CES0500000003'', ''Avg Hourly Earnings''),
             (''LNS14000000'', ''Unemployment Rate'')]"

section \<open>Reshaper\<close>

text \<open>
  Lines 110 to 133 of the script are calls into pandas. Each call is modelled by what
  pandas documents for it, on tables that are lists of rows.
\<close>

subsection \<open>The two frames\<close>

text \<open>
  \<^verbatim>\<open>UEL_DF = pd.DataFrame(UEL_Data).drop(columns=['footnotes', 'latest'])\<close>

  The frame built from a list of dicts has the union of their keys as columns, and
  \<^verbatim>\<open>drop\<close> raises KeyError when a label to drop is not a column. So the statement
  raises when no observation of the list has the key \<^verbatim>\<open>latest\<close>; that covers the empty
  list and \<^verbatim>\<open>None\<close> (the result of a find_trended_data that found nothing), from both of
  which pandas builds a frame with no columns at all.
\<close>

definition DataFrame_drop :: "observation list option \<Rightarrow> error + obs_row list" where
  "DataFrame_drop d =
     (case d of
        None \<Rightarrow> Inl KeyError
      | Some items \<Rightarrow>
          if list_ex (\<lambda>item. latest item \<noteq> None) items
          then Inr (map (\<lambda>item. \<lparr>year = year item, period = period item,
                                  periodName = periodName item, value' = value' item\<rparr>)
                        items)
          else Inl KeyError)"

subsection \<open>The join\<close>

text \<open>
  \<^verbatim>\<open>
  merged_df = pd.merge(UEL_DF, LF_DF, on=['year', 'period', 'periodName'],
                       suffixes=('_UEL', '_LB'))
  \<close>
  The default \<^verbatim>\<open>how\<close> is the inner join: one output row for every pair of a left row
  and a right row with equal key columns, in the order of the left rows. The column
  \<^verbatim>\<open>value\<close>, which both frames have, is renamed with the suffixes.
\<close>

record merged_row = period_key +
  value_UEL :: string
  value_LB :: string

definition key :: "'a period_key_scheme \<Rightarrow> string \<times> string \<times> string" where
  "key r = (year r, period r, periodName r)"

text \<open>The pair (year, period) of a row, the key the specification counts by.\<close>

definition year_period :: "'a period_key_scheme \<Rightarrow> string \<times> string" where
  "year_period r = (year r, period r)"

definition pd_merge :: "obs_row list \<Rightarrow> obs_row list \<Rightarrow> merged_row list" where
  "pd_merge left right =
     concat (map (\<lambda>l. map (\<lambda>r. \<lparr>year = year l, period = period l,
                                  periodName = periodName l,
                                  value_UEL = value' l, value_LB = value' r\<rparr>)
                          (filter (\<lambda>r. key r = key l) right))
                 left)"

subsection \<open>The derived columns\<close>

text \<open>
  \<^verbatim>\<open>
  month_map = {'January': 1, 'February': 2, ..., 'December': 12}
  merged_df['month'] = merged_df['periodName'].map(month_map)
  merged_df['date'] = pd.to_datetime(merged_df[['year', 'month']].assign(day=1))
  merged_df['pdnamelist'] = merged_df['periodName'] + "-" + merged_df['year']
  \<close>
  \<^verbatim>\<open>Series.map\<close> with a dict does not raise for a value that is not a key: the cell
  becomes NaN, here \<open>None\<close>.

  \<^verbatim>\<open>to_datetime\<close> on a frame with the columns year, month and day makes the year column
  numeric, which raises ValueError for a string that pandas does not read as a number;
  it computes \<open>year * 10000 + month * 100 + day\<close>, which is NaN when the month is NaN, and
  reads the result with the format \<^verbatim>\<open>%Y%m%d\<close>, where NaN gives NaT (\<open>None\<close>) and not
  an exception. A timestamp is the triple (year, month, day), ordered lexicographically.

  For a year written as four decimal digits without a leading zero, the form in which the
  API sends it, and a date from 1677-10-01 to 2262-04-01, the result is that date. What
  pandas does beyond that is not in the script, and the model takes it as a parameter
  rather than deciding it:
  \<^item> \<open>reads_year\<close>: whether pandas reads a year string of another form as a number
    (it reads the empty string, as NaN, and strings such as \<^verbatim>\<open>' 2023'\<close> or
    \<^verbatim>\<open>'2e3'\<close>);
  \<^item> \<open>other_date\<close>: what the format makes of the sum for such a year, or for a date
    outside these bounds, when the row has a month: a date, NaT or an exception;
  \<^item> \<open>tie\<close>: the sort of line 133 is not stable, and \<open>tie\<close> is the order it gives
    to rows of equal date.
  Every theorem below holds for every value of the parameter.

  pandas works column by column and the model row by row (\<open>new_columns\<close> is lines 126
  to 131 for one row): a column operation raises when it would raise for one of the rows.
\<close>

definition month_map :: "string \<rightharpoonup> nat" where
  "month_map =
     map_of [(''January'', 1), (''February'', 2), (''March'', 3), (''April'', 4),
             (''May'', 5), (''June'', 6), (''July'', 7), (''August'', 8),
             (''September'', 9), (''October'', 10), (''November'', 11),
             (''December'', 12)]"

type_synonym timestamp = "nat \<times> nat \<times> nat"

record trend_row = merged_row +
  month :: "nat option"
  date :: "timestamp option"
  pdnamelist :: string

record pandas =
  reads_year :: "string \<Rightarrow> bool"
  other_date :: "string \<Rightarrow> nat \<Rightarrow> error + timestamp option"
  tie :: "trend_row \<Rightarrow> nat"

definition digit :: "char \<rightharpoonup> nat" where
  "digit =
     map_of [(CHR ''0'', 0), (CHR ''1'', 1), (CHR ''2'', 2), (CHR ''3'', 3),
             (CHR ''4'', 4), (CHR ''5'', 5), (CHR ''6'', 6), (CHR ''7'', 7),
             (CHR ''8'', 8), (CHR ''9'', 9)]"

text \<open>The number of a year of the modelled form; \<open>None\<close> for any other string.\<close>

definition year_number :: "string \<Rightarrow> nat option" where
  "year_number y =
     (case map digit y of
        [Some a, Some b, Some c, Some d] \<Rightarrow>
          if a = 0 then None else Some (1000 * a + 100 * b + 10 * c + d)
      | _ \<Rightarrow> None)"

definition in_bounds :: "timestamp \<Rightarrow> bool" where
  "in_bounds t = ((1677, 10, 1) \<le> t \<and> t \<le> (2262, 4, 1))"

text \<open>Whether the year column's conversion to numbers accepts the string.\<close>

definition numeric_year :: "pandas \<Rightarrow> string \<Rightarrow> bool" where
  "numeric_year P y = (case year_number y of Some n \<Rightarrow> True | None \<Rightarrow> reads_year P y)"

definition to_datetime :: "pandas \<Rightarrow> string \<Rightarrow> nat option \<Rightarrow> error + timestamp option" where
  "to_datetime P y mo =
     (if numeric_year P y then
        (case mo of
           None \<Rightarrow> Inr None
         | Some m \<Rightarrow>
             (case year_number y of
                None \<Rightarrow> other_date P y m
              | Some n \<Rightarrow>
                  if in_bounds (n, m, 1) then Inr (Some (n, m, 1)) else other_date P y m))
      else Inl ValueError)"

definition new_columns :: "pandas \<Rightarrow> merged_row \<Rightarrow> error + trend_row" where
  "new_columns P r =
     (let mo = month_map (periodName r) in
      case to_datetime P (year r) mo of
        Inl e \<Rightarrow> Inl e
      | Inr d \<Rightarrow>
          Inr \<lparr>year = year r, period = period r, periodName = periodName r,
               value_UEL = value_UEL r, value_LB = value_LB r,
               month = mo, date = d, pdnamelist = periodName r @ ''-'' @ year r\<rparr>)"

text \<open>The table of the rows, or the first exception met.\<close>

fun all_rows :: "(error + 'a) list \<Rightarrow> error + 'a list" where
  "all_rows [] = Inr []"
| "all_rows (x # xs) =
     (case x of
        Inl e \<Rightarrow> Inl e
      | Inr r \<Rightarrow> (case all_rows xs of Inl e \<Rightarrow> Inl e | Inr rs \<Rightarrow> Inr (r # rs)))"

subsection \<open>The sort\<close>

text \<open>
  \<^verbatim>\<open>merged_df.sort_values(ascending=True, by=['date'], inplace=True)\<close>

  The rows with a date come first, in ascending order of the date; the rows whose date is
  NaT come last (\<^verbatim>\<open>na_position='last'\<close> is the default), in the order they had. Among
  rows of equal date the order is the one \<open>tie\<close> gives (rows that \<open>tie\<close> does not
  tell apart keep their order).
\<close>

definition date_rank :: "trend_row \<Rightarrow> nat \<times> timestamp" where
  "date_rank r = (case date r of None \<Rightarrow> (1, (0, 0, 0)) | Some t \<Rightarrow> (0, t))"

definition sort_rank :: "pandas \<Rightarrow> trend_row \<Rightarrow> (nat \<times> timestamp) \<times> nat" where
  "sort_rank P r = (date_rank r, case date r of None \<Rightarrow> 0 | Some t \<Rightarrow> tie P r)"

definition sort_values :: "pandas \<Rightarrow> trend_row list \<Rightarrow> trend_row list" where
  "sort_values P df = sort_key (sort_rank P) df"

text \<open>
  Comparing two cells of a date column, as pandas does: every comparison with NaT is
  false.
\<close>

fun date_le :: "timestamp option \<Rightarrow> timestamp option \<Rightarrow> bool" where
  "date_le (Some a) (Some b) = (a \<le> b)"
| "date_le _ _ = False"

subsection \<open>Lines 110 to 133\<close>

text \<open>
  The table \<^verbatim>\<open>merged_df\<close> after line 133, from the two results of find_trended_data
  (\<^verbatim>\<open>UEL_Data\<close> and \<^verbatim>\<open>LF_Data\<close>), or the exception that ends the run.
\<close>

definition merged_df ::
  "pandas \<Rightarrow> observation list option \<Rightarrow> observation list option \<Rightarrow> error + trend_row list" where
  "merged_df P UEL_Data LF_Data =
     (case DataFrame_drop UEL_Data of
        Inl e \<Rightarrow> Inl e
      | Inr UEL_DF \<Rightarrow>
          (case DataFrame_drop LF_Data of
             Inl e \<Rightarrow> Inl e
           | Inr LF_DF \<Rightarrow>
               (case all_rows (map (new_columns P) (pd_merge UEL_DF LF_DF)) of
                  Inl e \<Rightarrow> Inl e
                | Inr df \<Rightarrow> Inr (sort_values P df))))"

text \<open>
  Closed instances need one value of the parameter. \<open>pandas_sample\<close> reads, of the year
  strings of another form, the empty string only (as NaN, which leaves the row without a
  date), raises ValueError for a date outside the bounds, and keeps the order of rows of
  equal date.
\<close>

definition pandas_sample :: pandas where
  "pandas_sample =
     \<lparr>reads_year = (\<lambda>y. y = ''''),
      other_date = (\<lambda>y m. if y = '''' then Inr None else Inl ValueError),
      tie = (\<lambda>r. 0)\<rparr>"

section \<open>Renderer: the speaker notes\<close>

text \<open>
  \<^verbatim>\<open>
  URT_Data = Lvals_dict["Unemployment Rate"]      # (catch[1], catch[2])
  AHE_Data = Lvals_dict["Avg Hourly Earnings"]
  notes_text_frame.text = "Unemployment Rate Data: " + URT_Data[1] + "\n" + \
      "Avg Hourly Earnings Data: " + AHE_Data[1]
  \<close>
  A latest-value record is the pair (value, label) that the loop over the series stores
  in \<^verbatim>\<open>Lvals_dict\<close>: the second and third component of the result of
  find_latest_value.
\<close>

definition notes_text :: "string \<times> string \<Rightarrow> string \<times> string \<Rightarrow> string" where
  "notes_text URT_Data AHE_Data =
     ''Unemployment Rate Data: '' @ snd URT_Data @ [CHR 0x0A] @
     ''Avg Hourly Earnings Data: '' @ snd AHE_Data"

section \<open>Properties of the Extractor\<close>

lemma latest_loop_first:
  "\<lbrakk>list_all (\<lambda>p. latest p \<noteq> Some ''true'') pre; latest item = Some ''true''\<rbrakk>
   \<Longrightarrow> latest_loop (pre @ item # post) = Some item"
  by (induction pre) simp_all

lemma latest_loop_None:
  "latest_loop xs = None \<longleftrightarrow> list_all (\<lambda>p. latest p \<noteq> Some ''true'') xs"
  by (induction xs) simp_all

lemma latest_loop_Some:
  "latest_loop xs = Some item \<Longrightarrow> item \<in> set xs \<and> latest item = Some ''true''"
  by (induction xs) (auto split: if_splits)

text \<open>
  C1. When the observation sequence of a series holds an entry whose latest flag is
  'true', find_latest_value returns the series identifier, the value of a flagged entry of
  the sequence and the label periodName-year of that same entry. With one flagged entry
  that entry is the only candidate; the instance below is the observation
  value 3.7, March, 2024.
\<close>

theorem find_latest_value_flagged:
  assumes "\<exists>item \<in> set (data s). latest item = Some ''true''"
  shows "\<exists>item \<in> set (data s). latest item = Some ''true'' \<and>
           find_latest_value s =
             Inr (seriesID s, value' item, periodName item @ ''-'' @ year item)"
proof (cases "latest_loop (data s)")
  case None
  with assms show ?thesis
    by (auto simp: latest_loop_None list_all_iff)
next
  case (Some found)
  from latest_loop_Some [OF Some] Some show ?thesis
    by (auto simp: find_latest_value_def)
qed

theorem find_latest_value_flagged_witness:
  "(\<exists>item \<in> set (data \<lparr>seriesID = ''LNS14000000'',
        data = [\<lparr>year = ''2024'', period = ''M03'', periodName = ''March'',
                 value' = ''3.7'', latest = Some ''true'', footnotes = [[]]\<rparr>]\<rparr>).
      latest item = Some ''true'')
   \<and> find_latest_value \<lparr>seriesID = ''LNS14000000'',
        data = [\<lparr>year = ''2024'', period = ''M03'', periodName = ''March'',
                 value' = ''3.7'', latest = Some ''true'', footnotes = [[]]\<rparr>]\<rparr>
       = Inr (''LNS14000000'', ''3.7'', ''March-2024'')"
  using find_latest_value_flagged [of "\<lparr>seriesID = ''LNS14000000'',
        data = [\<lparr>year = ''2024'', period = ''M03'', periodName = ''March'',
                 value' = ''3.7'', latest = Some ''true'', footnotes = [[]]\<rparr>]\<rparr>"]
  by simp

text \<open>
  C2, as the script has it. When no entry of the observation sequence has the latest flag
  'true' (the sequence may be empty, the key may be absent or hold another string),
  find_latest_value raises: the loop leaves \<^verbatim>\<open>latest_data\<close> at \<^verbatim>\<open>None\<close> and the return
  statement subscripts it, which is Python's TypeError. The script has no named error for
  this case.
\<close>

theorem find_latest_value_unflagged:
  assumes "\<forall>item \<in> set (data s). latest item \<noteq> Some ''true''"
  shows "find_latest_value s = Inl TypeError"
proof -
  from assms have "latest_loop (data s) = None"
    by (simp add: latest_loop_None list_all_iff)
  then show ?thesis
    by (simp add: find_latest_value_def)
qed

theorem find_latest_value_unflagged_witness:
  "list_all (\<lambda>item. latest item \<noteq> Some ''true'')
     (data \<lparr>seriesID = ''LNS14000000'',
        data = [\<lparr>year = ''2024'', period = ''M03'', periodName = ''March'',
                 value' = ''3.8'', latest = None, footnotes = [[]]\<rparr>,
                \<lparr>year = ''2024'', period = ''M02'', periodName = ''February'',
                 value' = ''3.9'', latest = Some ''false'', footnotes = [[]]\<rparr>]\<rparr>)
   \<and> find_latest_value \<lparr>seriesID = ''LNS14000000'',
        data = [\<lparr>year = ''2024'', period = ''M03'', periodName = ''March'',
                 value' = ''3.8'', latest = None, footnotes = [[]]\<rparr>,
                \<lparr>year = ''2024'', period = ''M02'', periodName = ''February'',
                 value' = ''3.9'', latest = Some ''false'', footnotes = [[]]\<rparr>]\<rparr>
       = Inl TypeError"
  using find_latest_value_unflagged [of "\<lparr>seriesID = ''LNS14000000'',
        data = [\<lparr>year = ''2024'', period = ''M03'', periodName = ''March'',
                 value' = ''3.8'', latest = None, footnotes = [[]]\<rparr>,
                \<lparr>year = ''2024'', period = ''M02'', periodName = ''February'',
                 value' = ''3.9'', latest = Some ''false'', footnotes = [[]]\<rparr>]\<rparr>"]
  by simp

text \<open>
  The claim as the specification words it fails: on a series with one observation and no
  latest key the exception is TypeError, not DataShapeError.
\<close>

theorem find_latest_value_no_named_error:
  "find_latest_value \<lparr>seriesID = ''LNS14000000'',
        data = [\<lparr>year = ''2024'', period = ''M03'', periodName = ''March'',
                 value' = ''3.8'', latest = None, footnotes = [[]]\<rparr>]\<rparr>
     = Inl TypeError
   \<and> find_latest_value \<lparr>seriesID = ''LNS14000000'',
        data = [\<lparr>year = ''2024'', period = ''M03'', periodName = ''March'',
                 value' = ''3.8'', latest = None, footnotes = [[]]\<rparr>]\<rparr>
     \<noteq> Inl DataShapeError"
  by (simp add: find_latest_value_def)

text \<open>
  C10. With two or more flagged entries the loop stops at the first one: whatever follows
  it in the sequence (flagged or not) has no influence on the result.
\<close>

theorem find_latest_value_first_flagged:
  assumes "data s = pre @ item # post"
    and "\<forall>p \<in> set pre. latest p \<noteq> Some ''true''"
    and "latest item = Some ''true''"
  shows "find_latest_value s =
           Inr (seriesID s, value' item, periodName item @ ''-'' @ year item)"
proof -
  from assms(2) have "list_all (\<lambda>p. latest p \<noteq> Some ''true'') pre"
    by (simp add: list_all_iff)
  from latest_loop_first [OF this assms(3)] assms(1)
  have "latest_loop (data s) = Some item"
    by simp
  then show ?thesis
    by (simp add: find_latest_value_def)
qed

theorem find_latest_value_first_flagged_witness:
  "find_latest_value \<lparr>seriesID = ''LNS14000000'',
        data = [\<lparr>year = ''2024'', period = ''M05'', periodName = ''May'',
                 value' = ''4.0'', latest = None, footnotes = [[]]\<rparr>,
                \<lparr>year = ''2024'', period = ''M04'', periodName = ''April'',
                 value' = ''3.9'', latest = Some ''true'', footnotes = [[]]\<rparr>,
                \<lparr>year = ''2024'', period = ''M03'', periodName = ''March'',
                 value' = ''3.7'', latest = Some ''true'', footnotes = [[]]\<rparr>]\<rparr>
     = Inr (''LNS14000000'', ''3.9'', ''April-2024'')"
  using find_latest_value_first_flagged
    [of "\<lparr>seriesID = ''LNS14000000'',
        data = [\<lparr>year = ''2024'', period = ''M05'', periodName = ''May'',
                 value' = ''4.0'', latest = None, footnotes = [[]]\<rparr>,
                \<lparr>year = ''2024'', period = ''M04'', periodName = ''April'',
                 value' = ''3.9'', latest = Some ''true'', footnotes = [[]]\<rparr>,
                \<lparr>year = ''2024'', period = ''M03'', periodName = ''March'',
                 value' = ''3.7'', latest = Some ''true'', footnotes = [[]]\<rparr>]\<rparr>"
        "[\<lparr>year = ''2024'', period = ''M05'', periodName = ''May'',
                 value' = ''4.0'', latest = None, footnotes = [[]]\<rparr>]"
        "\<lparr>year = ''2024'', period = ''M04'', periodName = ''April'',
                 value' = ''3.9'', latest = Some ''true'', footnotes = [[]]\<rparr>"
        "[\<lparr>year = ''2024'', period = ''M03'', periodName = ''March'',
                 value' = ''3.7'', latest = Some ''true'', footnotes = [[]]\<rparr>]"]
  by simp

lemma find_trended_data_hit:
  "\<lbrakk>\<forall>p \<in> set pre. \<exists>l. m (seriesID p) = Some l \<and> l \<noteq> k; m (seriesID s) = Some k\<rbrakk>
   \<Longrightarrow> find_trended_data (pre @ s # post) m k = Inr (Some (data s))"
  by (induction pre) auto

lemma find_trended_data_miss:
  "\<forall>p \<in> set xs. \<exists>l. m (seriesID p) = Some l \<and> l \<noteq> k
   \<Longrightarrow> find_trended_data xs m k = Inr None"
  by (induction xs) auto

lemma find_trended_data_unmapped:
  "\<lbrakk>\<forall>p \<in> set pre. m (seriesID p) \<noteq> Some k; m (seriesID s) = None\<rbrakk>
   \<Longrightarrow> find_trended_data (pre @ s # post) m k = Inl KeyError"
  by (induction pre) (auto split: option.splits)

lemma find_trended_data_Inl:
  "find_trended_data xs m k = Inl e \<Longrightarrow>
     e = KeyError \<and>
     (\<exists>pre s post. xs = pre @ s # post
        \<and> (\<forall>p \<in> set pre. m (seriesID p) \<noteq> Some k) \<and> m (seriesID s) = None)"
proof (induction xs)
  case Nil
  then show ?case by simp
next
  case (Cons x xs)
  show ?case
  proof (cases "m (seriesID x)")
    case None
    with Cons.prems have "e = KeyError" by simp
    moreover have "x # xs = [] @ x # xs
        \<and> (\<forall>p \<in> set []. m (seriesID p) \<noteq> Some k) \<and> m (seriesID x) = None"
      using None by simp
    ultimately show ?thesis by blast
  next
    case (Some l)
    with Cons.prems have neq: "l \<noteq> k" and rest: "find_trended_data xs m k = Inl e"
      by (auto split: if_splits)
    from Cons.IH [OF rest] obtain pre s post where e: "e = KeyError"
      and xs: "xs = pre @ s # post"
      and pre: "\<forall>p \<in> set pre. m (seriesID p) \<noteq> Some k"
      and s: "m (seriesID s) = None"
      by blast
    have "x # xs = (x # pre) @ s # post
        \<and> (\<forall>p \<in> set (x # pre). m (seriesID p) \<noteq> Some k) \<and> m (seriesID s) = None"
      using xs pre s Some neq by simp
    with e show ?thesis by blast
  qed
qed

text \<open>
  C4, as the script has it. The scan returns the observation sequence of the first series
  whose label is the given one, when every series before it has an identifier that is a
  key of the mapping. When every series has such an identifier and no label is the given
  one, the function raises nothing and returns None. The only exception is the KeyError of
  the mapping, raised exactly when the scan reaches a series whose identifier is not a key
  before it reaches a match.
\<close>

theorem find_trended_data_scan:
  "(xs = pre @ s # post
      \<and> (\<forall>p \<in> set pre. \<exists>l. m (seriesID p) = Some l \<and> l \<noteq> k)
      \<and> m (seriesID s) = Some k
     \<longrightarrow> find_trended_data xs m k = Inr (Some (data s)))
   \<and> ((\<forall>p \<in> set xs. \<exists>l. m (seriesID p) = Some l \<and> l \<noteq> k)
     \<longrightarrow> find_trended_data xs m k = Inr None)
   \<and> ((\<exists>e. find_trended_data xs m k = Inl e) \<longleftrightarrow>
        find_trended_data xs m k = Inl KeyError)
   \<and> (find_trended_data xs m k = Inl KeyError \<longleftrightarrow>
        (\<exists>pre' s' post'. xs = pre' @ s' # post'
           \<and> (\<forall>p \<in> set pre'. m (seriesID p) \<noteq> Some k) \<and> m (seriesID s') = None))"
  using find_trended_data_hit [of pre m k s post] find_trended_data_miss [of xs m k]
    find_trended_data_Inl [of xs m k] find_trended_data_unmapped [of _ m k]
  by blast

theorem find_trended_data_scan_witness:
  "find_trended_data
     [\<lparr>seriesID = ''LNS13000000'',
       data = [\<lparr>year = ''2024'', period = ''M03'', periodName = ''March'',
                value' = ''6429'', latest = Some ''true'', footnotes = [[]]\<rparr>]\<rparr>,
      \<lparr>seriesID = ''JTS000000000000000JOL'',
       data = [\<lparr>year = ''2024'', period = ''M03'', periodName = ''March'',
                value' = ''8488'', latest = Some ''true'', footnotes = [[]]\<rparr>]\<rparr>]
     data_dict_key ''Labor Force''
   = Inr (Some [\<lparr>year = ''2024'', period = ''M03'', periodName = ''March'',
                value' = ''8488'', latest = Some ''true'', footnotes = [[]]\<rparr>])
   \<and> find_trended_data
     [\<lparr>seriesID = ''LNS13000000'',
       data = [\<lparr>year = ''2024'', period = ''M03'', periodName = ''March'',
                value' = ''6429'', latest = Some ''true'', footnotes = [[]]\<rparr>]\<rparr>]
     data_dict_key ''Labor Force''
   = Inr None
   \<and> find_trended_data
     [\<lparr>seriesID = ''LNS12000000'', data = []\<rparr>]
     data_dict_key ''Labor Force''
   = Inl KeyError"
  using find_trended_data_scan
    [of "[\<lparr>seriesID = ''LNS13000000'',
       data = [\<lparr>year = ''2024'', period = ''M03'', periodName = ''March'',
                value' = ''6429'', latest = Some ''true'', footnotes = [[]]\<rparr>]\<rparr>,
      \<lparr>seriesID = ''JTS000000000000000JOL'',
       data = [\<lparr>year = ''2024'', period = ''M03'', periodName = ''March'',
                value' = ''8488'', latest = Some ''true'', footnotes = [[]]\<rparr>]\<rparr>]"
     "[\<lparr>seriesID = ''LNS13000000'',
       data = [\<lparr>year = ''2024'', period = ''M03'', periodName = ''March'',
                value' = ''6429'', latest = Some ''true'', footnotes = [[]]\<rparr>]\<rparr>]"
     "\<lparr>seriesID = ''JTS000000000000000JOL'',
       data = [\<lparr>year = ''2024'', period = ''M03'', periodName = ''March'',
                value' = ''8488'', latest = Some ''true'', footnotes = [[]]\<rparr>]\<rparr>"
     "[]" data_dict_key "''Labor Force''"]
   find_trended_data_scan
    [of "[\<lparr>seriesID = ''LNS13000000'',
       data = [\<lparr>year = ''2024'', period = ''M03'', periodName = ''March'',
                value' = ''6429'', latest = Some ''true'', footnotes = [[]]\<rparr>]\<rparr>]"
     "[]" "\<lparr>seriesID = '''', data = []\<rparr>" "[]" data_dict_key "''Labor Force''"]
   find_trended_data_scan
    [of "[\<lparr>seriesID = ''LNS12000000'', data = []\<rparr>]"
     "[]" "\<lparr>seriesID = '''', data = []\<rparr>" "[]" data_dict_key "''Labor Force''"]
  by (simp add: data_dict_key_def)

text \<open>
  The claim as the specification words it fails: with one series in the list, labelled
  Unemployment Level, the scan for Labor Force finds no match and returns None; no error
  is raised.
\<close>

theorem find_trended_data_no_match_returns:
  "find_trended_data
     [\<lparr>seriesID = ''LNS13000000'',
       data = [\<lparr>year = ''2024'', period = ''M03'', periodName = ''March'',
                value' = ''6429'', latest = Some ''true'', footnotes = [[]]\<rparr>]\<rparr>]
     data_dict_key ''Labor Force''
   = Inr None"
  by (simp add: data_dict_key_def)

section \<open>Properties of the join\<close>

lemma key_joined [simp]:
  "key \<lparr>year = year l, period = period l, periodName = periodName l,
        value_UEL = u, value_LB = v\<rparr> = key l"
  by (simp add: key_def)

lemma set_key_pd_merge:
  "key ` set (pd_merge A B) = key ` set A \<inter> key ` set B"
proof (intro equalityI subsetI)
  fix k
  assume "k \<in> key ` set (pd_merge A B)"
  then obtain l r where "l \<in> set A" "r \<in> set B" "key r = key l" "k = key l"
    by (auto simp: pd_merge_def)
  then show "k \<in> key ` set A \<inter> key ` set B"
    by (metis IntI imageI)
next
  fix k
  assume "k \<in> key ` set A \<inter> key ` set B"
  then obtain l r where lr: "l \<in> set A" "r \<in> set B" "key l = k" "key r = k"
    by auto
  then have "\<lparr>year = year l, period = period l, periodName = periodName l,
          value_UEL = value' l, value_LB = value' r\<rparr> \<in> set (pd_merge A B)"
    by (auto simp: pd_merge_def)
  then have "key \<lparr>year = year l, period = period l, periodName = periodName l,
          value_UEL = value' l, value_LB = value' r\<rparr> \<in> key ` set (pd_merge A B)"
    by (rule imageI)
  with lr show "k \<in> key ` set (pd_merge A B)"
    by simp
qed

lemma length_pd_merge:
  "length (pd_merge A B) = sum_list (map (\<lambda>l. length (filter (\<lambda>r. key r = key l) B)) A)"
  by (simp add: pd_merge_def length_concat comp_def)

lemma length_filter_key:
  "distinct (map key B) \<Longrightarrow>
   length (filter (\<lambda>r. key r = k) B) = (if k \<in> key ` set B then 1 else 0)"
  by (induction B) auto

lemma length_pd_merge_distinct_right:
  assumes "distinct (map key B)"
  shows "length (pd_merge A B) = length (filter (\<lambda>l. key l \<in> key ` set B) A)"
  unfolding length_pd_merge
  by (induction A) (simp_all add: length_filter_key [OF assms])

lemma card_common_keys:
  assumes "distinct (map key A)"
  shows "card (key ` set A \<inter> S) = length (filter (\<lambda>l. key l \<in> S) A)"
proof -
  have "key ` set A \<inter> S = set (filter (\<lambda>k. k \<in> S) (map key A))"
    by auto
  moreover have "distinct (filter (\<lambda>k. k \<in> S) (map key A))"
    using assms by simp
  ultimately have "card (key ` set A \<inter> S) = length (filter (\<lambda>k. k \<in> S) (map key A))"
    using distinct_card [of "filter (\<lambda>k. k \<in> S) (map key A)"] by simp
  also have "\<dots> = length (filter (\<lambda>l. key l \<in> S) A)"
    by (simp add: filter_map comp_def)
  finally show ?thesis .
qed


lemma key_year_period:
  "key a = key b \<longleftrightarrow> year_period a = year_period b \<and> periodName a = periodName b"
  by (auto simp: key_def year_period_def)

lemma card_common_year_period:
  fixes A B :: "obs_row list"
  assumes same: "\<forall>a \<in> set A. \<forall>b \<in> set B.
                   year_period a = year_period b \<longrightarrow> periodName a = periodName b"
  shows "card (key ` set A \<inter> key ` set B)
         = card (year_period ` set A \<inter> year_period ` set B)"
proof -
  define S where "S = key ` set A \<inter> key ` set B"
  define f where "f = (\<lambda>k :: string \<times> string \<times> string. (fst k, fst (snd k)))"
  have yp: "f (key r) = year_period r" for r :: obs_row
    by (simp add: f_def key_def year_period_def)
  have inj: "inj_on f S"
  proof (rule inj_onI)
    fix k k'
    assume "k \<in> S" and "k' \<in> S" and eq: "f k = f k'"
    then obtain a b where a: "a \<in> set A" "k = key a" and b: "b \<in> set B" "k' = key b"
      unfolding S_def by blast
    from eq a(2) b(2) have "year_period a = year_period b"
      by (simp add: yp)
    moreover from this same a(1) b(1) have "periodName a = periodName b"
      by blast
    ultimately have "key a = key b"
      by (simp add: key_year_period)
    with a(2) b(2) show "k = k'" by simp
  qed
  have img: "f ` S = year_period ` set A \<inter> year_period ` set B"
  proof (intro equalityI subsetI)
    fix p
    assume "p \<in> f ` S"
    then obtain a b where ab: "a \<in> set A" "b \<in> set B" "key a = key b" "p = f (key a)"
      unfolding S_def by blast
    then have "p = year_period a" "p = year_period b"
      using yp [of a] yp [of b] by simp_all
    with ab(1,2) show "p \<in> year_period ` set A \<inter> year_period ` set B"
      by blast
  next
    fix p
    assume "p \<in> year_period ` set A \<inter> year_period ` set B"
    then obtain a b where ab: "a \<in> set A" "b \<in> set B"
        "year_period a = p" "year_period b = p"
      by auto
    with same have "periodName a = periodName b"
      by simp
    with ab(3,4) have "key a = key b"
      by (simp add: key_year_period)
    with ab(1,2) have "key a \<in> S"
      unfolding S_def by blast
    then have "f (key a) \<in> f ` S"
      by (rule imageI)
    with ab(3) show "p \<in> f ` S"
      by (simp add: yp)
  qed
  from card_image [OF inj] img show ?thesis
    by (simp add: S_def)
qed

text \<open>
  C5, as the script has it. The keys of the merged table are the keys (year, period,
  periodName) that both tables have, so a row whose key is in one table only is not in
  the merged table. When no key occurs twice in A and none twice in B, the merged table
  has one row for each common key, hence at most min(|A|, |B|) rows; when moreover rows
  of A and B with the same (year, period) have the same periodName, that number is the
  number of common (year, period) pairs.
\<close>

theorem pd_merge_row_count:
  "key ` set (pd_merge A B) = key ` set A \<inter> key ` set B
   \<and> (distinct (map key A) \<and> distinct (map key B) \<longrightarrow>
        length (pd_merge A B) = card (key ` set A \<inter> key ` set B)
        \<and> length (pd_merge A B) \<le> min (length A) (length B)
        \<and> ((\<forall>a \<in> set A. \<forall>b \<in> set B.
               year_period a = year_period b \<longrightarrow> periodName a = periodName b) \<longrightarrow>
             length (pd_merge A B) = card (year_period ` set A \<inter> year_period ` set B)))"
proof (intro conjI impI)
  show "key ` set (pd_merge A B) = key ` set A \<inter> key ` set B"
    by (rule set_key_pd_merge)
next
  assume d: "distinct (map key A) \<and> distinct (map key B)"
  then have dA: "distinct (map key A)" and dB: "distinct (map key B)"
    by simp_all
  show n: "length (pd_merge A B) = card (key ` set A \<inter> key ` set B)"
    by (simp add: length_pd_merge_distinct_right [OF dB] card_common_keys [OF dA])
  have "length (pd_merge A B) \<le> length A"
    by (simp add: length_pd_merge_distinct_right [OF dB])
  moreover have "card (key ` set A \<inter> key ` set B) \<le> card (key ` set B)"
    by (simp add: card_mono)
  then have "length (pd_merge A B) \<le> length B"
    using n distinct_card [OF dB] by simp
  ultimately show "length (pd_merge A B) \<le> min (length A) (length B)"
    by simp
  assume "\<forall>a \<in> set A. \<forall>b \<in> set B.
            year_period a = year_period b \<longrightarrow> periodName a = periodName b"
  from card_common_year_period [OF this] n
  show "length (pd_merge A B) = card (year_period ` set A \<inter> year_period ` set B)"
    by simp
qed

theorem pd_merge_row_count_witness:
  "distinct (map key
      [\<lparr>year = ''2023'', period = ''M01'', periodName = ''January'', value' = ''5694''\<rparr>,
       \<lparr>year = ''2023'', period = ''M02'', periodName = ''February'', value' = ''5936''\<rparr>,
       \<lparr>year = ''2023'', period = ''M03'', periodName = ''March'', value' = ''5839''\<rparr>])
   \<and> distinct (map key
      [\<lparr>year = ''2023'', period = ''M01'', periodName = ''January'', value' = ''10563''\<rparr>,
       \<lparr>year = ''2023'', period = ''M03'', periodName = ''March'', value' = ''9745''\<rparr>])
   \<and> length (pd_merge
      [\<lparr>year = ''2023'', period = ''M01'', periodName = ''January'', value' = ''5694''\<rparr>,
       \<lparr>year = ''2023'', period = ''M02'', periodName = ''February'', value' = ''5936''\<rparr>,
       \<lparr>year = ''2023'', period = ''M03'', periodName = ''March'', value' = ''5839''\<rparr>]
      [\<lparr>year = ''2023'', period = ''M01'', periodName = ''January'', value' = ''10563''\<rparr>,
       \<lparr>year = ''2023'', period = ''M03'', periodName = ''March'', value' = ''9745''\<rparr>])
     = 2"
proof -
  let ?A = "[\<lparr>year = ''2023'', period = ''M01'', periodName = ''January'', value' = ''5694''\<rparr>,
       \<lparr>year = ''2023'', period = ''M02'', periodName = ''February'', value' = ''5936''\<rparr>,
       \<lparr>year = ''2023'', period = ''M03'', periodName = ''March'', value' = ''5839''\<rparr>]"
  let ?B = "[\<lparr>year = ''2023'', period = ''M01'', periodName = ''January'', value' = ''10563''\<rparr>,
       \<lparr>year = ''2023'', period = ''M03'', periodName = ''March'', value' = ''9745''\<rparr>]"
  have d: "distinct (map key ?A) \<and> distinct (map key ?B)"
    by (simp add: key_def)
  have same: "\<forall>a \<in> set ?A. \<forall>b \<in> set ?B.
      year_period a = year_period b \<longrightarrow> periodName a = periodName b"
    by (simp add: year_period_def)
  from pd_merge_row_count [of ?A ?B] d same
  have "length (pd_merge ?A ?B) = card (year_period ` set ?A \<inter> year_period ` set ?B)"
    by blast
  also have "\<dots> = 2"
    by (simp add: year_period_def)
  finally show ?thesis
    using d by blast
qed

text \<open>
  Stated for all pairs of tables, the claim fails. A key that occurs twice in each table gives four merged
  rows, more than min(|A|, |B|) = 2 and more than the one common key. Rows that agree on
  (year, period) and differ in periodName do not join: no merged row, one common pair.
\<close>

theorem pd_merge_row_count_counterexample:
  "length (pd_merge
      [\<lparr>year = ''2023'', period = ''M01'', periodName = ''January'', value' = ''5694''\<rparr>,
       \<lparr>year = ''2023'', period = ''M01'', periodName = ''January'', value' = ''5695''\<rparr>]
      [\<lparr>year = ''2023'', period = ''M01'', periodName = ''January'', value' = ''10563''\<rparr>,
       \<lparr>year = ''2023'', period = ''M01'', periodName = ''January'', value' = ''10564''\<rparr>])
     = 4
   \<and> min (length
      [\<lparr>year = ''2023'', period = ''M01'', periodName = ''January'', value' = ''5694''\<rparr>,
       \<lparr>year = ''2023'', period = ''M01'', periodName = ''January'', value' = ''5695''\<rparr>])
      (length
      [\<lparr>year = ''2023'', period = ''M01'', periodName = ''January'', value' = ''10563''\<rparr>,
       \<lparr>year = ''2023'', period = ''M01'', periodName = ''January'', value' = ''10564''\<rparr>])
     = 2
   \<and> length (pd_merge
      [\<lparr>year = ''2023'', period = ''M01'', periodName = ''January'', value' = ''5694''\<rparr>]
      [\<lparr>year = ''2023'', period = ''M01'', periodName = ''Jan'', value' = ''10563''\<rparr>])
     = 0
   \<and> card (year_period `
        set [\<lparr>year = ''2023'', period = ''M01'', periodName = ''January'', value' = ''5694''\<rparr>]
      \<inter> year_period `
        set [\<lparr>year = ''2023'', period = ''M01'', periodName = ''Jan'', value' = ''10563''\<rparr>])
     = 1"
  by (simp add: pd_merge_def key_def year_period_def)

text \<open>
  C7. The join is symmetric on the key (year, period, periodName): joining A with B and
  joining B with A give the same set of keys.
\<close>

theorem pd_merge_symmetric:
  "key ` set (pd_merge A B) = key ` set (pd_merge B A)"
  by (auto simp: set_key_pd_merge)

theorem pd_merge_symmetric_witness:
  "key ` set (pd_merge
      [\<lparr>year = ''2023'', period = ''M01'', periodName = ''January'', value' = ''5694''\<rparr>,
       \<lparr>year = ''2023'', period = ''M02'', periodName = ''February'', value' = ''5936''\<rparr>]
      [\<lparr>year = ''2023'', period = ''M02'', periodName = ''February'', value' = ''9974''\<rparr>])
   = key ` set (pd_merge
      [\<lparr>year = ''2023'', period = ''M02'', periodName = ''February'', value' = ''9974''\<rparr>]
      [\<lparr>year = ''2023'', period = ''M01'', periodName = ''January'', value' = ''5694''\<rparr>,
       \<lparr>year = ''2023'', period = ''M02'', periodName = ''February'', value' = ''5936''\<rparr>])"
  by (rule pd_merge_symmetric)

section \<open>Properties of the derived columns and of the sort\<close>

lemma month_map_eval:
  "map month_map [''January'', ''February'', ''March'', ''April'', ''May'', ''June'', ''July'',
       ''August'', ''September'', ''October'', ''November'', ''December'']
   = map Some [1, 2, 3, 4, 5, 6, 7, 8, 9, 10, 11, 12]"
  by (simp add: month_map_def)

lemma dom_month_map:
  "dom month_map = set [''January'', ''February'', ''March'', ''April'', ''May'', ''June'', ''July'',
       ''August'', ''September'', ''October'', ''November'', ''December'']"
  unfolding month_map_def dom_map_of_conv_image_fst by simp

lemma all_rows_Inr:
  "all_rows (map f xs) = Inr ys \<Longrightarrow> list_all2 (\<lambda>x y. f x = Inr y) xs ys"
  by (induction xs arbitrary: ys) (auto split: sum.splits)

lemma all_rows_Inr_iff:
  "(\<exists>ys. all_rows (map f xs) = Inr ys) \<longleftrightarrow> (\<forall>x \<in> set xs. \<exists>y. f x = Inr y)"
  by (induction xs) (auto split: sum.splits)

lemma all_rows_member:
  assumes "all_rows (map f xs) = Inr ys" and "x \<in> set xs"
  shows "\<exists>y \<in> set ys. f x = Inr y"
proof -
  from assms(2) obtain i where i: "i < length xs" "xs ! i = x"
    by (auto simp: in_set_conv_nth)
  from all_rows_Inr [OF assms(1)] i have "length ys = length xs" "f x = Inr (ys ! i)"
    by (auto simp: list_all2_conv_all_nth)
  with i(1) show ?thesis
    by (metis nth_mem)
qed

lemma new_columns_no_month:
  "month_map (periodName r) = None \<Longrightarrow>
   new_columns P r =
     (if numeric_year P (year r)
      then Inr \<lparr>year = year r, period = period r, periodName = periodName r,
                value_UEL = value_UEL r, value_LB = value_LB r,
                month = None, date = None, pdnamelist = periodName r @ ''-'' @ year r\<rparr>
      else Inl ValueError)"
  by (simp add: new_columns_def to_datetime_def)

lemma DataFrame_drop_Some:
  "DataFrame_drop (Some a) = Inr df \<Longrightarrow>
   df = map (\<lambda>item. \<lparr>year = year item, period = period item,
                      periodName = periodName item, value' = value' item\<rparr>) a"
  by (auto simp: DataFrame_drop_def split: if_splits)

lemma pd_merge_member:
  assumes "l \<in> set left" and "r \<in> set right" and "key r = key l"
  shows "\<lparr>year = year l, period = period l, periodName = periodName l,
          value_UEL = value' l, value_LB = value' r\<rparr> \<in> set (pd_merge left right)"
  using assms by (auto simp: pd_merge_def)

lemma set_sort_values: "set (sort_values P df) = set df"
  by (simp add: sort_values_def)

lemma merged_df_Inr:
  assumes "merged_df P A B = Inr out"
  obtains UEL_DF LF_DF df where "DataFrame_drop A = Inr UEL_DF"
    and "DataFrame_drop B = Inr LF_DF"
    and "all_rows (map (new_columns P) (pd_merge UEL_DF LF_DF)) = Inr df"
    and "out = sort_values P df"
  using assms by (auto simp: merged_df_def split: sum.splits)

lemma merged_df_returns_iff:
  "(\<exists>out. merged_df P A B = Inr out) \<longleftrightarrow>
   (\<exists>UEL_DF LF_DF. DataFrame_drop A = Inr UEL_DF \<and> DataFrame_drop B = Inr LF_DF
      \<and> (\<forall>r \<in> set (pd_merge UEL_DF LF_DF). \<exists>t. new_columns P r = Inr t))"
proof
  assume "\<exists>out. merged_df P A B = Inr out"
  then obtain out where "merged_df P A B = Inr out" ..
  then obtain UEL_DF LF_DF df where f: "DataFrame_drop A = Inr UEL_DF"
    "DataFrame_drop B = Inr LF_DF"
    and "all_rows (map (new_columns P) (pd_merge UEL_DF LF_DF)) = Inr df"
    by (rule merged_df_Inr)
  then have "\<forall>r \<in> set (pd_merge UEL_DF LF_DF). \<exists>t. new_columns P r = Inr t"
    using all_rows_Inr_iff [of "new_columns P" "pd_merge UEL_DF LF_DF"] by blast
  with f show "\<exists>UEL_DF LF_DF. DataFrame_drop A = Inr UEL_DF \<and> DataFrame_drop B = Inr LF_DF
      \<and> (\<forall>r \<in> set (pd_merge UEL_DF LF_DF). \<exists>t. new_columns P r = Inr t)"
    by blast
next
  assume "\<exists>UEL_DF LF_DF. DataFrame_drop A = Inr UEL_DF \<and> DataFrame_drop B = Inr LF_DF
      \<and> (\<forall>r \<in> set (pd_merge UEL_DF LF_DF). \<exists>t. new_columns P r = Inr t)"
  then obtain UEL_DF LF_DF where f: "DataFrame_drop A = Inr UEL_DF"
    "DataFrame_drop B = Inr LF_DF"
    and "\<forall>r \<in> set (pd_merge UEL_DF LF_DF). \<exists>t. new_columns P r = Inr t"
    by blast
  then obtain df where "all_rows (map (new_columns P) (pd_merge UEL_DF LF_DF)) = Inr df"
    using all_rows_Inr_iff [of "new_columns P" "pd_merge UEL_DF LF_DF"] by blast
  with f show "\<exists>out. merged_df P A B = Inr out"
    by (simp add: merged_df_def)
qed

lemma merged_df_keeps_row:
  assumes out: "merged_df P (Some a) (Some b) = Inr out"
    and x: "x \<in> set a" and y: "y \<in> set b" and k: "key x = key y"
    and m: "month_map (periodName x) = None"
  shows "\<lparr>year = year x, period = period x, periodName = periodName x,
          value_UEL = value' x, value_LB = value' y,
          month = None, date = None, pdnamelist = periodName x @ ''-'' @ year x\<rparr>
         \<in> set out"
proof -
  let ?fr = "\<lambda>item :: observation. \<lparr>year = year item, period = period item,
                      periodName = periodName item, value' = value' item\<rparr>"
  let ?j = "\<lparr>year = year x, period = period x, periodName = periodName x,
          value_UEL = value' x, value_LB = value' y\<rparr>"
  from out obtain UEL_DF LF_DF df where U: "DataFrame_drop (Some a) = Inr UEL_DF"
    and L: "DataFrame_drop (Some b) = Inr LF_DF"
    and rows: "all_rows (map (new_columns P) (pd_merge UEL_DF LF_DF)) = Inr df"
    and sorted: "out = sort_values P df"
    by (rule merged_df_Inr)
  from DataFrame_drop_Some [OF U] x have "?fr x \<in> set UEL_DF"
    by simp
  moreover from DataFrame_drop_Some [OF L] y have "?fr y \<in> set LF_DF"
    by simp
  moreover from k have "key (?fr y) = key (?fr x)"
    by (simp add: key_def)
  ultimately have "\<lparr>year = year (?fr x), period = period (?fr x),
      periodName = periodName (?fr x),
      value_UEL = value' (?fr x), value_LB = value' (?fr y)\<rparr> \<in> set (pd_merge UEL_DF LF_DF)"
    by (rule pd_merge_member)
  then have "?j \<in> set (pd_merge UEL_DF LF_DF)"
    by simp
  from all_rows_member [OF rows this] obtain t where t: "t \<in> set df" "new_columns P ?j = Inr t"
    by blast
  from m have "month_map (periodName ?j) = None"
    by simp
  from new_columns_no_month [OF this, of P] t(2)
  have "t = \<lparr>year = year x, period = period x, periodName = periodName x,
          value_UEL = value' x, value_LB = value' y,
          month = None, date = None, pdnamelist = periodName x @ ''-'' @ year x\<rparr>"
    by (simp split: if_splits)
  with t(1) sorted show ?thesis
    by (simp add: set_sort_values)
qed

lemma date_rank_le:
  "date_rank r1 \<le> date_rank r2 \<Longrightarrow> date r2 = Some b \<Longrightarrow> \<exists>a. date r1 = Some a \<and> a \<le> b"
  by (cases "date r1") (auto simp: date_rank_def)

lemma sort_rank_le: "sort_rank P r1 \<le> sort_rank P r2 \<Longrightarrow> date_rank r1 \<le> date_rank r2"
  by (auto simp: sort_rank_def)

lemma sort_values_adjacent:
  assumes "Suc i < length (sort_values P df)"
  shows "date_rank (sort_values P df ! i) \<le> date_rank (sort_values P df ! Suc i)"
proof -
  have "sorted (map (sort_rank P) (sort_values P df))"
    by (simp add: sort_values_def)
  from sorted_nth_mono [OF this, of i "Suc i"] assms
  have "sort_rank P (sort_values P df ! i) \<le> sort_rank P (sort_values P df ! Suc i)"
    by simp
  then show ?thesis
    by (rule sort_rank_le)
qed

lemma perm2:
  assumes "mset xs = mset [a, b]"
  shows "xs = [a, b] \<or> xs = [b, a]"
proof -
  from assms have "length xs = 2"
    using mset_eq_length by fastforce
  then obtain x y where xs: "xs = [x, y]"
    by (auto simp: length_Suc_conv numeral_2_eq_2)
  with assms show ?thesis
    by (auto simp: add_eq_conv_ex)
qed

lemma perm3:
  assumes "mset xs = mset [a, b, c]"
  shows "xs = [a, b, c] \<or> xs = [a, c, b] \<or> xs = [b, a, c] \<or> xs = [b, c, a]
       \<or> xs = [c, a, b] \<or> xs = [c, b, a]"
proof -
  from assms have "length xs = 3"
    using mset_eq_length by fastforce
  then obtain x y z where xs: "xs = [x, y, z]"
    by (auto simp: length_Suc_conv numeral_3_eq_3)
  with assms show ?thesis
    by (auto simp: add_eq_conv_ex)
qed

lemma DataFrame_drop_latest:
  assumes "\<exists>item \<in> set a. latest item \<noteq> None"
  shows "DataFrame_drop (Some a) =
     Inr (map (\<lambda>item. \<lparr>year = year item, period = period item,
                        periodName = periodName item, value' = value' item\<rparr>) a)"
  using assms by (simp add: DataFrame_drop_def list_ex_iff)

text \<open>
  C3, as the script has it. The lookup table sends the twelve English month names to 1
  through 12 and has no other key. For a row whose periodName is any other string the
  lookup raises nothing and the month of the row is missing; to_datetime then leaves the
  row without a date when pandas reads the year of the row as a number, and raises
  ValueError when it does not, whatever the period name. Lines 110 to 133 return a table
  exactly when both frames can be built and to_datetime raises for no joined row, and a
  returned table holds every joined row whose periodName is no month name, without month
  and without date.
\<close>

theorem month_map_lookup:
  "map month_map [''January'', ''February'', ''March'', ''April'', ''May'', ''June'',
       ''July'', ''August'', ''September'', ''October'', ''November'', ''December'']
     = map Some [1, 2, 3, 4, 5, 6, 7, 8, 9, 10, 11, 12]
   \<and> (s \<notin> set [''January'', ''February'', ''March'', ''April'', ''May'', ''June'',
       ''July'', ''August'', ''September'', ''October'', ''November'', ''December'']
      \<longrightarrow> month_map s = None)
   \<and> (month_map (periodName r) = None \<longrightarrow>
        new_columns P r =
          (if numeric_year P (year r)
           then Inr \<lparr>year = year r, period = period r, periodName = periodName r,
                     value_UEL = value_UEL r, value_LB = value_LB r,
                     month = None, date = None,
                     pdnamelist = periodName r @ ''-'' @ year r\<rparr>
           else Inl ValueError))
   \<and> (merged_df P (Some a) (Some b) = Inr out \<and> x \<in> set a \<and> y \<in> set b
        \<and> key x = key y \<and> month_map (periodName x) = None \<longrightarrow>
        \<lparr>year = year x, period = period x, periodName = periodName x,
          value_UEL = value' x, value_LB = value' y,
          month = None, date = None, pdnamelist = periodName x @ ''-'' @ year x\<rparr>
        \<in> set out)
   \<and> ((\<exists>out'. merged_df P A B = Inr out') \<longleftrightarrow>
        (\<exists>UEL_DF LF_DF. DataFrame_drop A = Inr UEL_DF \<and> DataFrame_drop B = Inr LF_DF
           \<and> (\<forall>j \<in> set (pd_merge UEL_DF LF_DF). \<exists>t. new_columns P j = Inr t)))"
proof (intro conjI impI)
  show "map month_map [''January'', ''February'', ''March'', ''April'', ''May'', ''June'',
       ''July'', ''August'', ''September'', ''October'', ''November'', ''December'']
     = map Some [1, 2, 3, 4, 5, 6, 7, 8, 9, 10, 11, 12]"
    by (rule month_map_eval)
next
  assume "s \<notin> set [''January'', ''February'', ''March'', ''April'', ''May'', ''June'',
       ''July'', ''August'', ''September'', ''October'', ''November'', ''December'']"
  then have "s \<notin> dom month_map"
    by (simp only: dom_month_map not_False_eq_True)
  then show "month_map s = None"
    by blast
next
  assume "month_map (periodName r) = None"
  then show "new_columns P r =
          (if numeric_year P (year r)
           then Inr \<lparr>year = year r, period = period r, periodName = periodName r,
                     value_UEL = value_UEL r, value_LB = value_LB r,
                     month = None, date = None,
                     pdnamelist = periodName r @ ''-'' @ year r\<rparr>
           else Inl ValueError)"
    by (rule new_columns_no_month)
next
  assume "merged_df P (Some a) (Some b) = Inr out \<and> x \<in> set a \<and> y \<in> set b
        \<and> key x = key y \<and> month_map (periodName x) = None"
  then show "\<lparr>year = year x, period = period x, periodName = periodName x,
          value_UEL = value' x, value_LB = value' y,
          month = None, date = None, pdnamelist = periodName x @ ''-'' @ year x\<rparr>
        \<in> set out"
    using merged_df_keeps_row [of P a b out x y] by blast
next
  show "(\<exists>out'. merged_df P A B = Inr out') \<longleftrightarrow>
        (\<exists>UEL_DF LF_DF. DataFrame_drop A = Inr UEL_DF \<and> DataFrame_drop B = Inr LF_DF
           \<and> (\<forall>j \<in> set (pd_merge UEL_DF LF_DF). \<exists>t. new_columns P j = Inr t))"
    by (rule merged_df_returns_iff)
qed

theorem month_map_lookup_witness:
  "month_map ''Q1'' = None
   \<and> new_columns pandas_sample
       \<lparr>year = ''2023'', period = ''Q01'', periodName = ''Q1'',
        value_UEL = ''6080'', value_LB = ''9358''\<rparr>
     = Inr \<lparr>year = ''2023'', period = ''Q01'', periodName = ''Q1'',
            value_UEL = ''6080'', value_LB = ''9358'',
            month = None, date = None, pdnamelist = ''Q1-2023''\<rparr>
   \<and> \<lparr>year = '''', period = ''M13'', periodName = ''Annual'',
        value_UEL = ''6080'', value_LB = ''9358'',
        month = None, date = None, pdnamelist = ''Annual-''\<rparr>
     \<in> set [\<lparr>year = '''', period = ''M13'', periodName = ''Annual'',
              value_UEL = ''6080'', value_LB = ''9358'',
              month = None, date = None, pdnamelist = ''Annual-''\<rparr>]"
proof -
  let ?x = "\<lparr>year = '''', period = ''M13'', periodName = ''Annual'',
             value' = ''6080'', latest = Some ''true'', footnotes = [[]]\<rparr>"
  let ?y = "\<lparr>year = '''', period = ''M13'', periodName = ''Annual'',
             value' = ''9358'', latest = Some ''true'', footnotes = [[]]\<rparr>"
  let ?r = "\<lparr>year = ''2023'', period = ''Q01'', periodName = ''Q1'',
             value_UEL = ''6080'', value_LB = ''9358''\<rparr>"
  let ?out = "[\<lparr>year = '''', period = ''M13'', periodName = ''Annual'',
              value_UEL = ''6080'', value_LB = ''9358'',
              month = None, date = None, pdnamelist = ''Annual-''\<rparr>]"
  have s: "''Q1'' \<notin> set [''January'', ''February'', ''March'', ''April'', ''May'', ''June'',
       ''July'', ''August'', ''September'', ''October'', ''November'', ''December'']"
    by simp
  have q: "month_map ''Q1'' = None" and an: "month_map ''Annual'' = None"
    by (simp_all add: month_map_def)
  have n: "numeric_year pandas_sample ''2023''"
    by (simp add: numeric_year_def year_number_def digit_def)
  have out: "merged_df pandas_sample (Some [?x]) (Some [?y]) = Inr ?out"
    by (simp add: merged_df_def DataFrame_drop_def pd_merge_def key_def new_columns_def
        an to_datetime_def numeric_year_def year_number_def pandas_sample_def
        sort_values_def)
  note t = month_map_lookup [where s = "''Q1''" and r = ?r and P = pandas_sample
      and a = "[?x]" and b = "[?y]" and out = ?out and x = ?x and y = ?y]
  from t s have 1: "month_map ''Q1'' = None"
    by blast
  from t q n have 2: "new_columns pandas_sample ?r =
      Inr \<lparr>year = ''2023'', period = ''Q01'', periodName = ''Q1'',
            value_UEL = ''6080'', value_LB = ''9358'',
            month = None, date = None, pdnamelist = ''Q1-2023''\<rparr>"
    by simp
  from t out an have 3: "\<lparr>year = '''', period = ''M13'', periodName = ''Annual'',
        value_UEL = ''6080'', value_LB = ''9358'',
        month = None, date = None, pdnamelist = ''Annual-''\<rparr> \<in> set ?out"
    by (simp add: key_def)
  from 1 2 3 show ?thesis
    by (intro conjI)
qed

text \<open>
  The claim as the specification words it fails: two series with the one observation
  \<^verbatim>\<open>Annual\<close> of 2023 give a table of one row, without month and date, and no
  error.
\<close>

theorem merged_df_keeps_other_period_name:
  "merged_df pandas_sample
     (Some [\<lparr>year = ''2023'', period = ''M13'', periodName = ''Annual'',
             value' = ''6080'', latest = Some ''true'', footnotes = [[]]\<rparr>])
     (Some [\<lparr>year = ''2023'', period = ''M13'', periodName = ''Annual'',
             value' = ''9358'', latest = Some ''true'', footnotes = [[]]\<rparr>])
   = Inr [\<lparr>year = ''2023'', period = ''M13'', periodName = ''Annual'',
           value_UEL = ''6080'', value_LB = ''9358'',
           month = None, date = None, pdnamelist = ''Annual-2023''\<rparr>]"
  by (simp add: merged_df_def DataFrame_drop_def pd_merge_def key_def new_columns_def
      month_map_def to_datetime_def numeric_year_def year_number_def digit_def
      sort_values_def)

text \<open>
  C6, as the script has it. Series A with the observations of January, February and
  March 2023 (periods M01, M02, M03) and series B with those of January and March 2023,
  in any order, whatever their values and footnotes, each series with the key
  \<^verbatim>\<open>latest\<close> on some observation: the merged, sorted table has exactly two rows,
  January-2023 then March-2023, and none for February.
\<close>

theorem merged_df_scenario:
  assumes A: "mset A = mset
            [\<lparr>year = ''2023'', period = ''M01'', periodName = ''January'',
              value' = v1, latest = l1, footnotes = f1\<rparr>,
             \<lparr>year = ''2023'', period = ''M02'', periodName = ''February'',
              value' = v2, latest = l2, footnotes = f2\<rparr>,
             \<lparr>year = ''2023'', period = ''M03'', periodName = ''March'',
              value' = v3, latest = l3, footnotes = f3\<rparr>]"
    and B: "mset B = mset
            [\<lparr>year = ''2023'', period = ''M01'', periodName = ''January'',
              value' = w1, latest = k1, footnotes = g1\<rparr>,
             \<lparr>year = ''2023'', period = ''M03'', periodName = ''March'',
              value' = w3, latest = k3, footnotes = g3\<rparr>]"
    and la: "l1 \<noteq> None \<or> l2 \<noteq> None \<or> l3 \<noteq> None"
    and lb: "k1 \<noteq> None \<or> k3 \<noteq> None"
  shows "merged_df P (Some A) (Some B)
   = Inr [\<lparr>year = ''2023'', period = ''M01'', periodName = ''January'',
           value_UEL = v1, value_LB = w1,
           month = Some 1, date = Some (2023, 1, 1), pdnamelist = ''January-2023''\<rparr>,
          \<lparr>year = ''2023'', period = ''M03'', periodName = ''March'',
           value_UEL = v3, value_LB = w3,
           month = Some 3, date = Some (2023, 3, 1), pdnamelist = ''March-2023''\<rparr>]"
proof -
  let ?fr = "\<lambda>item :: observation. \<lparr>year = year item, period = period item,
                      periodName = periodName item, value' = value' item\<rparr>"
  let ?a1 = "\<lparr>year = ''2023'', period = ''M01'', periodName = ''January'', value' = v1\<rparr>"
  let ?a2 = "\<lparr>year = ''2023'', period = ''M02'', periodName = ''February'', value' = v2\<rparr>"
  let ?a3 = "\<lparr>year = ''2023'', period = ''M03'', periodName = ''March'', value' = v3\<rparr>"
  let ?b1 = "\<lparr>year = ''2023'', period = ''M01'', periodName = ''January'', value' = w1\<rparr>"
  let ?b3 = "\<lparr>year = ''2023'', period = ''M03'', periodName = ''March'', value' = w3\<rparr>"
  let ?jan = "\<lparr>year = ''2023'', period = ''M01'', periodName = ''January'',
          value_UEL = v1, value_LB = w1\<rparr>"
  let ?mar = "\<lparr>year = ''2023'', period = ''M03'', periodName = ''March'',
          value_UEL = v3, value_LB = w3\<rparr>"
  let ?tjan = "\<lparr>year = ''2023'', period = ''M01'', periodName = ''January'',
           value_UEL = v1, value_LB = w1,
           month = Some 1, date = Some (2023, 1, 1), pdnamelist = ''January-2023''\<rparr>"
  let ?tmar = "\<lparr>year = ''2023'', period = ''M03'', periodName = ''March'',
           value_UEL = v3, value_LB = w3,
           month = Some 3, date = Some (2023, 3, 1), pdnamelist = ''March-2023''\<rparr>"
  \<comment> \<open>the two frames: the rows of the observations, in the order of the observations\<close>
  from la mset_eq_setD [OF A] have "\<exists>item \<in> set A. latest item \<noteq> None"
    by auto
  then have UEL_DF: "DataFrame_drop (Some A) = Inr (map ?fr A)"
    by (rule DataFrame_drop_latest)
  from lb mset_eq_setD [OF B] have "\<exists>item \<in> set B. latest item \<noteq> None"
    by auto
  then have LF_DF: "DataFrame_drop (Some B) = Inr (map ?fr B)"
    by (rule DataFrame_drop_latest)
  have "mset (map ?fr A) = image_mset ?fr (mset A)"
    by simp
  also note A
  finally have "mset (map ?fr A) = mset [?a1, ?a2, ?a3]"
    by simp
  from perm3 [OF this]
  have pa: "map ?fr A = [?a1, ?a2, ?a3] \<or> map ?fr A = [?a1, ?a3, ?a2]
      \<or> map ?fr A = [?a2, ?a1, ?a3] \<or> map ?fr A = [?a2, ?a3, ?a1]
      \<or> map ?fr A = [?a3, ?a1, ?a2] \<or> map ?fr A = [?a3, ?a2, ?a1]" .
  have "mset (map ?fr B) = image_mset ?fr (mset B)"
    by simp
  also note B
  finally have "mset (map ?fr B) = mset [?b1, ?b3]"
    by simp
  from perm2 [OF this]
  have pb: "map ?fr B = [?b1, ?b3] \<or> map ?fr B = [?b3, ?b1]" .
  \<comment> \<open>the join: the two common keys, in the order of the left frame\<close>
  from pa pb
  have merged: "pd_merge (map ?fr A) (map ?fr B) = [?jan, ?mar]
      \<or> pd_merge (map ?fr A) (map ?fr B) = [?mar, ?jan]"
    by (elim disjE) (simp_all add: pd_merge_def key_def)
  \<comment> \<open>the derived columns\<close>
  have y: "year_number ''2023'' = Some 2023"
    by (simp add: year_number_def digit_def)
  have jan: "new_columns P ?jan = Inr ?tjan"
    by (simp add: new_columns_def month_map_def to_datetime_def numeric_year_def y
        in_bounds_def)
  have mar: "new_columns P ?mar = Inr ?tmar"
    by (simp add: new_columns_def month_map_def to_datetime_def numeric_year_def y
        in_bounds_def)
  \<comment> \<open>the sort puts January first, whichever order the join gave\<close>
  have s1: "sort_values P [?tjan, ?tmar] = [?tjan, ?tmar]"
    by (simp add: sort_values_def sort_rank_def date_rank_def)
  have s2: "sort_values P [?tmar, ?tjan] = [?tjan, ?tmar]"
    by (simp add: sort_values_def sort_rank_def date_rank_def)
  from merged show ?thesis
  proof
    assume "pd_merge (map ?fr A) (map ?fr B) = [?jan, ?mar]"
    then show ?thesis
      by (simp only: merged_df_def UEL_DF LF_DF list.map all_rows.simps jan mar
          sum.case s1)
  next
    assume "pd_merge (map ?fr A) (map ?fr B) = [?mar, ?jan]"
    then show ?thesis
      by (simp only: merged_df_def UEL_DF LF_DF list.map all_rows.simps jan mar
          sum.case s2)
  qed
qed

theorem merged_df_scenario_witness:
  "merged_df pandas_sample
     (Some [\<lparr>year = ''2023'', period = ''M03'', periodName = ''March'',
             value' = ''5839'', latest = Some ''true'', footnotes = [[]]\<rparr>,
            \<lparr>year = ''2023'', period = ''M02'', periodName = ''February'',
             value' = ''5936'', latest = None, footnotes = [[]]\<rparr>,
            \<lparr>year = ''2023'', period = ''M01'', periodName = ''January'',
             value' = ''5694'', latest = None, footnotes = [[]]\<rparr>])
     (Some [\<lparr>year = ''2023'', period = ''M03'', periodName = ''March'',
             value' = ''9745'', latest = Some ''true'', footnotes = [[]]\<rparr>,
            \<lparr>year = ''2023'', period = ''M01'', periodName = ''January'',
             value' = ''10563'', latest = None, footnotes = [[]]\<rparr>])
   = Inr [\<lparr>year = ''2023'', period = ''M01'', periodName = ''January'',
           value_UEL = ''5694'', value_LB = ''10563'',
           month = Some 1, date = Some (2023, 1, 1), pdnamelist = ''January-2023''\<rparr>,
          \<lparr>year = ''2023'', period = ''M03'', periodName = ''March'',
           value_UEL = ''5839'', value_LB = ''9745'',
           month = Some 3, date = Some (2023, 3, 1), pdnamelist = ''March-2023''\<rparr>]"
proof -
  let ?jan = "\<lparr>year = ''2023'', period = ''M01'', periodName = ''January'',
             value' = ''5694'', latest = None, footnotes = [[]]\<rparr>"
  let ?feb = "\<lparr>year = ''2023'', period = ''M02'', periodName = ''February'',
             value' = ''5936'', latest = None, footnotes = [[]]\<rparr>"
  let ?mar = "\<lparr>year = ''2023'', period = ''M03'', periodName = ''March'',
             value' = ''5839'', latest = Some ''true'', footnotes = [[]]\<rparr>"
  let ?jan' = "\<lparr>year = ''2023'', period = ''M01'', periodName = ''January'',
             value' = ''10563'', latest = None, footnotes = [[]]\<rparr>"
  let ?mar' = "\<lparr>year = ''2023'', period = ''M03'', periodName = ''March'',
             value' = ''9745'', latest = Some ''true'', footnotes = [[]]\<rparr>"
  have A: "mset [?mar, ?feb, ?jan] = mset [?jan, ?feb, ?mar]"
    by (simp add: add_mset_commute)
  have B: "mset [?mar', ?jan'] = mset [?jan', ?mar']"
    by (simp add: add_mset_commute)
  have la: "(None :: string option) \<noteq> None \<or> (None :: string option) \<noteq> None
      \<or> Some ''true'' \<noteq> None"
    by simp
  have lb: "(None :: string option) \<noteq> None \<or> Some ''true'' \<noteq> None"
    by simp
  from merged_df_scenario [OF A B la lb, of pandas_sample] show ?thesis .
qed

text \<open>
  Without the key \<^verbatim>\<open>latest\<close> the scenario gives no table: line 110 drops a column the
  frame does not have, which is a KeyError, and in a run of the whole script line 89 has
  raised TypeError before, since no observation is flagged.
\<close>

theorem merged_df_scenario_without_latest:
  "merged_df pandas_sample
     (Some [\<lparr>year = ''2023'', period = ''M01'', periodName = ''January'',
             value' = ''5694'', latest = None, footnotes = [[]]\<rparr>,
            \<lparr>year = ''2023'', period = ''M02'', periodName = ''February'',
             value' = ''5936'', latest = None, footnotes = [[]]\<rparr>,
            \<lparr>year = ''2023'', period = ''M03'', periodName = ''March'',
             value' = ''5839'', latest = None, footnotes = [[]]\<rparr>])
     (Some [\<lparr>year = ''2023'', period = ''M01'', periodName = ''January'',
             value' = ''10563'', latest = None, footnotes = [[]]\<rparr>,
            \<lparr>year = ''2023'', period = ''M03'', periodName = ''March'',
             value' = ''9745'', latest = None, footnotes = [[]]\<rparr>])
   = Inl KeyError
   \<and> find_latest_value \<lparr>seriesID = ''LNS13000000'', data =
           [\<lparr>year = ''2023'', period = ''M01'', periodName = ''January'',
             value' = ''5694'', latest = None, footnotes = [[]]\<rparr>,
            \<lparr>year = ''2023'', period = ''M02'', periodName = ''February'',
             value' = ''5936'', latest = None, footnotes = [[]]\<rparr>,
            \<lparr>year = ''2023'', period = ''M03'', periodName = ''March'',
             value' = ''5839'', latest = None, footnotes = [[]]\<rparr>]\<rparr>
   = Inl TypeError"
  by (simp add: merged_df_def DataFrame_drop_def find_latest_value_def)

text \<open>
  C8, as the script has it. In the table that lines 110 to 133 return, a row with a date
  is preceded only by rows with a date, and two adjacent rows with dates are in ascending
  order; so the rows without a date (NaT) come after all others. When every row of the
  table has a date, every adjacent pair has date(r1) \<le> date(r2).
\<close>

theorem merged_df_sorted:
  assumes "merged_df P A B = Inr out" and "Suc i < length out"
  shows "(\<forall>b. date (out ! Suc i) = Some b \<longrightarrow> (\<exists>a. date (out ! i) = Some a \<and> a \<le> b))
       \<and> ((\<forall>r \<in> set out. date r \<noteq> None) \<longrightarrow>
            date_le (date (out ! i)) (date (out ! Suc i)))"
proof -
  from assms(1) obtain df where out: "out = sort_values P df"
    by (rule merged_df_Inr)
  from assms(2) out
  have le: "date_rank (out ! i) \<le> date_rank (out ! Suc i)"
    by (simp add: sort_values_adjacent)
  have first: "\<forall>b. date (out ! Suc i) = Some b \<longrightarrow> (\<exists>a. date (out ! i) = Some a \<and> a \<le> b)"
    using date_rank_le [OF le] by blast
  have second: "date_le (date (out ! i)) (date (out ! Suc i))"
    if all: "\<forall>r \<in> set out. date r \<noteq> None"
  proof -
    from assms(2) have "out ! Suc i \<in> set out"
      by simp
    with all obtain b where b: "date (out ! Suc i) = Some b"
      by blast
    with first obtain a where "date (out ! i) = Some a" "a \<le> b"
      by blast
    with b show ?thesis
      by simp
  qed
  from first second show ?thesis
    by blast
qed

theorem merged_df_sorted_witness:
  "merged_df pandas_sample
     (Some [\<lparr>year = ''2023'', period = ''M03'', periodName = ''March'',
             value' = ''5839'', latest = Some ''true'', footnotes = [[]]\<rparr>,
            \<lparr>year = ''2022'', period = ''M12'', periodName = ''December'',
             value' = ''5722'', latest = None, footnotes = [[]]\<rparr>])
     (Some [\<lparr>year = ''2023'', period = ''M03'', periodName = ''March'',
             value' = ''9745'', latest = Some ''true'', footnotes = [[]]\<rparr>,
            \<lparr>year = ''2022'', period = ''M12'', periodName = ''December'',
             value' = ''11234'', latest = None, footnotes = [[]]\<rparr>])
   = Inr [\<lparr>year = ''2022'', period = ''M12'', periodName = ''December'',
           value_UEL = ''5722'', value_LB = ''11234'',
           month = Some 12, date = Some (2022, 12, 1), pdnamelist = ''December-2022''\<rparr>,
          \<lparr>year = ''2023'', period = ''M03'', periodName = ''March'',
           value_UEL = ''5839'', value_LB = ''9745'',
           month = Some 3, date = Some (2023, 3, 1), pdnamelist = ''March-2023''\<rparr>]
   \<and> date_le (Some (2022, 12, 1)) (Some (2023, 3, 1))"
proof -
  have out: "merged_df pandas_sample
     (Some [\<lparr>year = ''2023'', period = ''M03'', periodName = ''March'',
             value' = ''5839'', latest = Some ''true'', footnotes = [[]]\<rparr>,
            \<lparr>year = ''2022'', period = ''M12'', periodName = ''December'',
             value' = ''5722'', latest = None, footnotes = [[]]\<rparr>])
     (Some [\<lparr>year = ''2023'', period = ''M03'', periodName = ''March'',
             value' = ''9745'', latest = Some ''true'', footnotes = [[]]\<rparr>,
            \<lparr>year = ''2022'', period = ''M12'', periodName = ''December'',
             value' = ''11234'', latest = None, footnotes = [[]]\<rparr>])
   = Inr [\<lparr>year = ''2022'', period = ''M12'', periodName = ''December'',
           value_UEL = ''5722'', value_LB = ''11234'',
           month = Some 12, date = Some (2022, 12, 1), pdnamelist = ''December-2022''\<rparr>,
          \<lparr>year = ''2023'', period = ''M03'', periodName = ''March'',
           value_UEL = ''5839'', value_LB = ''9745'',
           month = Some 3, date = Some (2023, 3, 1), pdnamelist = ''March-2023''\<rparr>]"
    by (simp add: merged_df_def DataFrame_drop_def pd_merge_def key_def new_columns_def
        month_map_def to_datetime_def numeric_year_def year_number_def digit_def
        in_bounds_def sort_values_def sort_rank_def date_rank_def)
  from merged_df_sorted [OF out, of 0] have
    "date_le (Some (2022, 12, 1)) (Some (2023, 3, 1))"
    by simp
  with out show ?thesis
    by (rule conjI)
qed

text \<open>
  Stated for every output, the claim fails: with the observations \<^verbatim>\<open>Annual\<close> and
  \<^verbatim>\<open>January\<close> of 2023 in both series the output is the January row followed by the
  Annual row, whose date is NaT, and the comparison of a date with NaT is false.
\<close>

theorem merged_df_undated_row_last:
  "merged_df pandas_sample
     (Some [\<lparr>year = ''2023'', period = ''M13'', periodName = ''Annual'',
             value' = ''6080'', latest = Some ''true'', footnotes = [[]]\<rparr>,
            \<lparr>year = ''2023'', period = ''M01'', periodName = ''January'',
             value' = ''5694'', latest = None, footnotes = [[]]\<rparr>])
     (Some [\<lparr>year = ''2023'', period = ''M13'', periodName = ''Annual'',
             value' = ''9358'', latest = Some ''true'', footnotes = [[]]\<rparr>,
            \<lparr>year = ''2023'', period = ''M01'', periodName = ''January'',
             value' = ''10563'', latest = None, footnotes = [[]]\<rparr>])
   = Inr [\<lparr>year = ''2023'', period = ''M01'', periodName = ''January'',
           value_UEL = ''5694'', value_LB = ''10563'',
           month = Some 1, date = Some (2023, 1, 1), pdnamelist = ''January-2023''\<rparr>,
          \<lparr>year = ''2023'', period = ''M13'', periodName = ''Annual'',
           value_UEL = ''6080'', value_LB = ''9358'',
           month = None, date = None, pdnamelist = ''Annual-2023''\<rparr>]
   \<and> \<not> date_le
        (date \<lparr>year = ''2023'', period = ''M01'', periodName = ''January'',
           value_UEL = ''5694'', value_LB = ''10563'',
           month = Some 1, date = Some (2023, 1, 1), pdnamelist = ''January-2023''\<rparr>)
        (date \<lparr>year = ''2023'', period = ''M13'', periodName = ''Annual'',
           value_UEL = ''6080'', value_LB = ''9358'',
           month = None, date = None, pdnamelist = ''Annual-2023''\<rparr>)"
  by (simp add: merged_df_def DataFrame_drop_def pd_merge_def key_def new_columns_def
      month_map_def to_datetime_def numeric_year_def year_number_def digit_def
      in_bounds_def sort_values_def sort_rank_def date_rank_def)

text \<open>
  A row whose period name is a month name can be without a date as well: pandas reads the
  empty year string as NaN, and the row comes last.
\<close>

lemma merged_df_empty_year:
  "merged_df pandas_sample
     (Some [\<lparr>year = '''', period = ''M01'', periodName = ''January'',
             value' = ''5694'', latest = Some ''true'', footnotes = [[]]\<rparr>,
            \<lparr>year = ''2023'', period = ''M01'', periodName = ''January'',
             value' = ''5726'', latest = None, footnotes = [[]]\<rparr>])
     (Some [\<lparr>year = '''', period = ''M01'', periodName = ''January'',
             value' = ''10563'', latest = Some ''true'', footnotes = [[]]\<rparr>,
            \<lparr>year = ''2023'', period = ''M01'', periodName = ''January'',
             value' = ''10824'', latest = None, footnotes = [[]]\<rparr>])
   = Inr [\<lparr>year = ''2023'', period = ''M01'', periodName = ''January'',
           value_UEL = ''5726'', value_LB = ''10824'',
           month = Some 1, date = Some (2023, 1, 1), pdnamelist = ''January-2023''\<rparr>,
          \<lparr>year = '''', period = ''M01'', periodName = ''January'',
           value_UEL = ''5694'', value_LB = ''10563'',
           month = Some 1, date = None, pdnamelist = ''January-''\<rparr>]"
  by (simp add: merged_df_def DataFrame_drop_def pd_merge_def key_def new_columns_def
      month_map_def to_datetime_def numeric_year_def year_number_def digit_def
      in_bounds_def pandas_sample_def sort_values_def sort_rank_def date_rank_def)

section \<open>Properties of the speaker notes\<close>

text \<open>
  C9, as the script has it. The notes are two lines, each a fixed prefix followed by the
  label (periodName-year) of one of the two latest-value records; both labels are part of
  the text, and the text does not depend on the raw values.
\<close>

theorem notes_text_labels:
  "notes_text (v1, l1) (v2, l2) =
     ''Unemployment Rate Data: '' @ l1 @ [CHR 0x0A] @ ''Avg Hourly Earnings Data: '' @ l2
   \<and> sublist l1 (notes_text (v1, l1) (v2, l2))
   \<and> sublist l2 (notes_text (v1, l1) (v2, l2))
   \<and> notes_text (v1, l1) (v2, l2) = notes_text (v1', l1) (v2', l2)"
proof -
  have "sublist l1 (''Unemployment Rate Data: '' @ l1 @
          ([CHR 0x0A] @ ''Avg Hourly Earnings Data: '' @ l2))"
    by (rule sublist_appendI)
  moreover have "sublist l2 ((''Unemployment Rate Data: '' @ l1 @ [CHR 0x0A] @
          ''Avg Hourly Earnings Data: '') @ l2 @ [])"
    by (rule sublist_appendI)
  ultimately show ?thesis
    by (simp add: notes_text_def)
qed

theorem notes_text_labels_witness:
  "notes_text (''3.9'', ''April-2024'') (''34.75'', ''April-2024'')
   = ''Unemployment Rate Data: April-2024'' @ [CHR 0x0A] @ ''Avg Hourly Earnings Data: April-2024''"
  using notes_text_labels [of "''3.9''" "''April-2024''" "''34.75''" "''April-2024''"]
  by simp

text \<open>
  The claim as the specification words it fails: for the records (3.7, March-2024) and
  (34.69, March-2024) neither 3.7 nor 34.69 occurs in the notes.
\<close>

theorem notes_text_without_value:
  "notes_text (''3.7'', ''March-2024'') (''34.69'', ''March-2024'')
     = ''Unemployment Rate Data: March-2024'' @ [CHR 0x0A] @ ''Avg Hourly Earnings Data: March-2024''
   \<and> \<not> sublist ''3.7'' (notes_text (''3.7'', ''March-2024'') (''34.69'', ''March-2024''))
   \<and> \<not> sublist ''34.69'' (notes_text (''3.7'', ''March-2024'') (''34.69'', ''March-2024''))"
  by (simp add: notes_text_def sublist_Cons_right)

end
